theory Spec2Isabelle
  imports Complex_Main "HOL-Library.Word"
begin

section \<open>The sonar driver: data model\<close>

text \<open>
  The driver shares one pin and one timer (TIM3, channel 3) between the trigger pulse
  and the echo measurement. The interrupt handler \<open>TIM3_IRQHandler\<close> and the task
  \<open>vSonarTask\<close> communicate through file-level statics and one binary semaphore.

  The statics of the source become the fields of the record \<open>sonar\<close>. The two
  \<open>bool\<close> statics \<open>mode\<close> and \<open>capture\<close> stay booleans, read through the
  constants the source defines for them.
\<close>

definition SONAR_BAD_VALUE :: int where
  "SONAR_BAD_VALUE = - 1"

definition TIM_TRIG_PSC :: "16 word" where
  "TIM_TRIG_PSC = 0"

definition TIM_TRIG_PERIOD :: "16 word" where
  "TIM_TRIG_PERIOD = 1451"

definition TIM_TRIG_PULSE :: "16 word" where
  "TIM_TRIG_PULSE = TIM_TRIG_PERIOD div 2"

definition TIM_ECHO_PSC :: "16 word" where
  "TIM_ECHO_PSC = 179"

definition TIM_ECHO_PERIOD :: "16 word" where
  "TIM_ECHO_PERIOD = 0xffff"

definition TIM_ECHO_TC_US :: real where
  "TIM_ECHO_TC_US = 2.5"

definition CONV_CONST_US_CM :: int where
  "CONV_CONST_US_CM = 58"

definition TRIGGER :: bool where
  "TRIGGER = False"

definition ECHO :: bool where
  "ECHO = True"

definition BEGIN :: bool where
  "BEGIN = False"

definition END :: bool where
  "END = True"

subsection \<open>The timer peripheral, as far as the driver programs it\<close>

text \<open>
  Modelled from the spec: the timer peripheral and its library calls (\<open>TIM_Cmd\<close>,
  \<open>GPIO_Init\<close>, \<open>TIM_DeInit\<close>, \<open>TIM_TimeBaseInit\<close>, \<open>TIM_OC3Init\<close>,
  \<open>TIM_ICInit\<close>, \<open>TIM_ITConfig\<close>, \<open>TIM_GetITStatus\<close>, \<open>TIM_GetCapture3\<close>,
  \<open>TIM_ClearFlag\<close>, \<open>TIM_ClearITPendingBit\<close>), which are not part of the driver.
  The peripheral is a single counter that is reconfigured between one-shot pulse
  generation and edge capture, and that reports two interrupt sources. Its registers are
  modelled by the settings the driver writes and by what it reads back: \<open>it_update\<close>
  and \<open>it_cc3\<close> are what \<open>TIM_GetITStatus\<close> returns for \<open>TIM_IT_Update\<close> and
  \<open>TIM_IT_CC3\<close>, and \<open>ccr3\<close> is what \<open>TIM_GetCapture3\<close> returns.
\<close>

datatype gpio_mode = GPIO_Mode_AF_PP | GPIO_Mode_IN_FLOATING

datatype ic_polarity = TIM_ICPolarity_Rising | TIM_ICPolarity_Falling

datatype channel3 =
    CH3_Reset
  | CH3_Output "16 word"
  | CH3_Input ic_polarity

record timer =
  enabled :: bool
  prescaler :: "16 word"
  period :: "16 word"
  one_pulse :: bool
  irq_enabled :: bool
  pin :: gpio_mode
  channel :: channel3
  it_update :: bool
  it_cc3 :: bool
  ccr3 :: "16 word"

subsection \<open>The statics of the driver\<close>

text \<open>
  \<open>value_ticks\<close> is the static \<open>value\<close> of the source (the echo pulse duration in
  timer ticks); \<open>gate\<close> is the binary semaphore \<open>xResponseSemphr\<close>, \<open>True\<close> when
  it can be taken. The two \<open>uint16_t\<close> samples are 16-bit words. \<open>value\<close> and
  \<open>value_cm\<close> are C \<open>int\<close>s; every value the driver stores in them lies between
  \<open>-1\<close> and \<open>65534\<close>, so they are modelled as integers without wrap-around.
\<close>

record sonar =
  mode :: bool
  capture :: bool
  value_ticks :: int
  value_cm :: int
  IC3Value1 :: "16 word"
  IC3Value2 :: "16 word"
  gate :: bool
  tim :: timer

section \<open>Conversion of ticks to centimetres\<close>

text \<open>
  Line 272 of the driver: \<open>value_cm = value * TIM_ECHO_TC_US / CONV_CONST_US_CM\<close>.
  The product and the quotient are computed in \<open>double\<close> and the result is converted
  to \<open>int\<close>, which truncates towards zero. For a 32-bit \<open>value\<close> the product is
  exact and the rounded quotient lies strictly between the same two integers as the
  exact one (a non-integral multiple of \<open>1/116\<close> is at least \<open>1/116\<close> away from
  every integer), so the exact quotient truncates to the same integer.
\<close>

definition double_to_int :: "real \<Rightarrow> int" where
  "double_to_int x = (if 0 \<le> x then \<lfloor>x\<rfloor> else \<lceil>x\<rceil>)"

definition ticks_to_cm :: "int \<Rightarrow> int" where
  "ticks_to_cm v = double_to_int (real_of_int v * TIM_ECHO_TC_US / real_of_int CONV_CONST_US_CM)"

section \<open>The driver\<close>

subsection \<open>Timer reconfiguration\<close>

text \<open>
  \<open>vSendTriggerPulse\<close>: the timer is stopped, the pin becomes an alternate-function
  output, the timer is reset (\<open>TIM_DeInit\<close>) and programmed for one pulse on output
  channel 3, the update flag is cleared, both interrupts are enabled and the timer is
  started.
\<close>

definition TIM_DeInit :: "timer \<Rightarrow> timer" where
  "TIM_DeInit t = t\<lparr>enabled := False, prescaler := 0, period := 0xffff, one_pulse := False,
     irq_enabled := False, channel := CH3_Reset, it_update := False, it_cc3 := False,
     ccr3 := 0\<rparr>"

definition vSendTriggerPulse :: "sonar \<Rightarrow> sonar" where
  "vSendTriggerPulse s =
     (let t0 = (tim s)\<lparr>enabled := False\<rparr>;
          t1 = t0\<lparr>pin := GPIO_Mode_AF_PP\<rparr>;
          t2 = TIM_DeInit t1;
          t3 = t2\<lparr>prescaler := TIM_TRIG_PSC, period := TIM_TRIG_PERIOD\<rparr>;
          t4 = t3\<lparr>it_update := False\<rparr>;
          t5 = t4\<lparr>channel := CH3_Output TIM_TRIG_PULSE\<rparr>;
          t6 = t5\<lparr>one_pulse := True\<rparr>;
          t7 = t6\<lparr>irq_enabled := True\<rparr>;
          t8 = t7\<lparr>enabled := True\<rparr>
      in s\<lparr>tim := t8\<rparr>)"

text \<open>
  \<open>vSetEchoMode\<close>: the timer is stopped, the pin floats, the timer counts the whole
  16-bit range at 2.5 us a tick, channel 3 captures the rising edge, the timer is started
  and the status register is written to zero.
\<close>

definition vSetEchoMode :: "sonar \<Rightarrow> sonar" where
  "vSetEchoMode s =
     (let t0 = (tim s)\<lparr>enabled := False\<rparr>;
          t1 = t0\<lparr>pin := GPIO_Mode_IN_FLOATING\<rparr>;
          t2 = t1\<lparr>prescaler := TIM_ECHO_PSC, period := TIM_ECHO_PERIOD\<rparr>;
          t3 = t2\<lparr>it_update := False\<rparr>;
          t4 = t3\<lparr>channel := CH3_Input TIM_ICPolarity_Rising\<rparr>;
          t5 = t4\<lparr>enabled := True\<rparr>;
          t6 = t5\<lparr>it_update := False, it_cc3 := False\<rparr>
      in s\<lparr>tim := t6\<rparr>)"

subsection \<open>The semaphore\<close>

text \<open>
  Modelled from the spec: the scheduler's binary semaphore (\<open>vSemaphoreCreateBinary\<close>,
  \<open>xSemaphoreGiveFromISR\<close>, \<open>xSemaphoreTake\<close>), which is not part of the driver. It
  has capacity one; giving it from the interrupt makes it available, and giving an
  available semaphore changes nothing; taking it waits at most for the timeout and
  reports whether it was obtained.
\<close>

definition vSemaphoreCreateBinary :: "sonar \<Rightarrow> sonar" where
  "vSemaphoreCreateBinary s = s\<lparr>gate := True\<rparr>"

definition xSemaphoreGiveFromISR :: "sonar \<Rightarrow> sonar" where
  "xSemaphoreGiveFromISR s = s\<lparr>gate := True\<rparr>"

subsection \<open>The interrupt handler\<close>

definition TIM3_IRQHandler :: "sonar \<Rightarrow> sonar" where
  "TIM3_IRQHandler s =
     (if it_update (tim s) then
        (let s1 = (if mode s = TRIGGER
                   then xSemaphoreGiveFromISR (s\<lparr>mode := ECHO\<rparr>)
                   else s)
         in s1\<lparr>tim := (tim s1)\<lparr>it_update := False\<rparr>\<rparr>)
      else if it_cc3 (tim s) then
        (let s1 =
           (if mode s = ECHO then
              (if capture s = BEGIN then
                 (let s2 = s\<lparr>IC3Value1 := ccr3 (tim s)\<rparr>;
                      s3 = s2\<lparr>tim := (tim s2)\<lparr>channel := CH3_Input TIM_ICPolarity_Falling\<rparr>\<rparr>
                  in s3\<lparr>capture := END\<rparr>)
               else if capture s = END then
                 (let s2 = s\<lparr>IC3Value2 := ccr3 (tim s)\<rparr>;
                      s3 = (if uint (IC3Value2 s2) > uint (IC3Value1 s2)
                            then s2\<lparr>value_ticks := (uint (IC3Value2 s2) - uint (IC3Value1 s2)) - 1\<rparr>
                            else s2\<lparr>value_ticks :=
                                   ((0xFFFF - uint (IC3Value1 s2)) + uint (IC3Value2 s2)) - 1\<rparr>)
                  in xSemaphoreGiveFromISR s3)
               else s)
            else s)
         in s1\<lparr>tim := (tim s1)\<lparr>it_cc3 := False\<rparr>\<rparr>)
      else s)"

definition iSonarMeasureDistCm :: "sonar \<Rightarrow> int" where
  "iSonarMeasureDistCm s = value_cm s"

subsection \<open>Interrupts arriving while the task waits\<close>

text \<open>
  The hardware raises an interrupt by setting its status flag (and, for a capture, by
  latching the counter in the capture register); the handler then runs.
\<close>

datatype irq = UpdateEvent | CaptureEvent "16 word"

fun raise_irq :: "irq \<Rightarrow> sonar \<Rightarrow> sonar" where
  "raise_irq UpdateEvent s = s\<lparr>tim := (tim s)\<lparr>it_update := True\<rparr>\<rparr>"
| "raise_irq (CaptureEvent c) s = s\<lparr>tim := (tim s)\<lparr>it_cc3 := True, ccr3 := c\<rparr>\<rparr>"

definition interrupt :: "irq \<Rightarrow> sonar \<Rightarrow> sonar" where
  "interrupt e s = TIM3_IRQHandler (raise_irq e s)"

text \<open>
  \<open>xSemaphoreTake\<close> with a timeout. The list holds the interrupts that fire while the
  task is blocked, in order. The task resumes as soon as the semaphore is available and
  takes it (result \<open>True\<close>); interrupts listed after that point are not part of this
  wait. When the list is used up and the semaphore was never given, the wait has timed
  out (result \<open>False\<close>).
\<close>

fun xSemaphoreTake :: "sonar \<Rightarrow> irq list \<Rightarrow> bool \<times> sonar" where
  "xSemaphoreTake s [] =
     (if gate s then (True, s\<lparr>gate := False\<rparr>) else (False, s))"
| "xSemaphoreTake s (e # es) =
     (if gate s then (True, s\<lparr>gate := False\<rparr>) else xSemaphoreTake (interrupt e s) es)"

subsection \<open>Initialisation\<close>

text \<open>
  Before \<open>vSonarInit\<close> the statics are zero and the timer is in its reset state.
  \<open>vSonarInit\<close> creates the semaphore, which is born available, and takes it at once;
  no interrupt of the timer can fire before the first trigger pulse enables them.
\<close>

definition timer_reset :: timer where
  "timer_reset = \<lparr>enabled = False, prescaler = 0, period = 0xffff, one_pulse = False,
     irq_enabled = False, pin = GPIO_Mode_IN_FLOATING, channel = CH3_Reset,
     it_update = False, it_cc3 = False, ccr3 = 0\<rparr>"

definition sonar_boot :: sonar where
  "sonar_boot = \<lparr>mode = False, capture = False, value_ticks = 0, value_cm = 0,
     IC3Value1 = 0, IC3Value2 = 0, gate = False, tim = timer_reset\<rparr>"

definition vSonarInit :: "sonar \<Rightarrow> sonar" where
  "vSonarInit s = snd (xSemaphoreTake (vSemaphoreCreateBinary s) [])"

subsection \<open>The measurement task\<close>

text \<open>
  One iteration of the loop of \<open>vSonarTask\<close>, statement by statement:
  \<^item> \<open>trigger_arm\<close>, lines 254 and 255: the mode is set and the trigger pulse is sent;
  \<^item> \<open>trigger_wait\<close>, lines 257 to 259: the wait for the end of the pulse, which writes
    \<open>SONAR_BAD_VALUE\<close> when it times out;
  \<^item> \<open>echo_arm\<close>, lines 262 to 265: the capture state is reset and the timer is set to
    capture;
  \<^item> \<open>echo_wait\<close>, lines 268 to 270: the wait for the end of the echo, which writes
    \<open>SONAR_BAD_VALUE\<close> when it times out;
  \<^item> \<open>publish\<close>, line 272: the conversion, which no condition guards.
  The delay that ends the iteration changes no state.
\<close>

definition trigger_arm :: "sonar \<Rightarrow> sonar" where
  "trigger_arm s = vSendTriggerPulse (s\<lparr>mode := TRIGGER\<rparr>)"

definition trigger_wait :: "sonar \<Rightarrow> irq list \<Rightarrow> bool \<times> sonar" where
  "trigger_wait s evs =
     (let (taken, s1) = xSemaphoreTake s evs
      in (taken, if \<not> taken then s1\<lparr>value_cm := SONAR_BAD_VALUE\<rparr> else s1))"

definition echo_arm :: "sonar \<Rightarrow> sonar" where
  "echo_arm s = vSetEchoMode (s\<lparr>capture := BEGIN\<rparr>)"

definition echo_wait :: "sonar \<Rightarrow> irq list \<Rightarrow> bool \<times> sonar" where
  "echo_wait s evs =
     (let (taken, s1) = xSemaphoreTake s evs
      in (taken, if \<not> taken then s1\<lparr>value_cm := SONAR_BAD_VALUE\<rparr> else s1))"

definition publish :: "sonar \<Rightarrow> sonar" where
  "publish s = s\<lparr>value_cm := ticks_to_cm (value_ticks s)\<rparr>"

definition sonar_cycle :: "sonar \<Rightarrow> irq list \<Rightarrow> irq list \<Rightarrow> sonar" where
  "sonar_cycle s trig_evs echo_evs =
     (let s1 = trigger_arm s;
          s2 = snd (trigger_wait s1 trig_evs);
          s3 = echo_arm s2;
          s4 = snd (echo_wait s3 echo_evs)
      in publish s4)"

text \<open>
  The task: the reading starts as \<open>SONAR_BAD_VALUE\<close>, then the loop runs forever. The
  model runs one iteration for each pair of interrupt lists it is given (the interrupts
  of the trigger wait and those of the echo wait).
\<close>

fun sonar_loop :: "sonar \<Rightarrow> (irq list \<times> irq list) list \<Rightarrow> sonar" where
  "sonar_loop s [] = s"
| "sonar_loop s ((trig_evs, echo_evs) # cs) = sonar_loop (sonar_cycle s trig_evs echo_evs) cs"

definition vSonarTask :: "sonar \<Rightarrow> (irq list \<times> irq list) list \<Rightarrow> sonar" where
  "vSonarTask s cs = sonar_loop (s\<lparr>value_cm := SONAR_BAD_VALUE\<rparr>) cs"

subsection \<open>Relations between two runs\<close>

text \<open>
  Two states are related during the trigger wait when they agree on what the handler
  reads before the pulse ends, and during the echo wait when they also agree on the
  capture state and, once the first edge is stored, on its timestamp. The stored width is
  left out of both relations: the handler writes it and never reads it.
\<close>

definition trig_sim :: "sonar \<Rightarrow> sonar \<Rightarrow> bool" where
  "trig_sim s s' \<longleftrightarrow>
     gate s = gate s' \<and> mode s = mode s'
     \<and> it_update (tim s) = it_update (tim s') \<and> it_cc3 (tim s) = it_cc3 (tim s')
     \<and> (gate s \<or> mode s = TRIGGER)"

definition echo_sim :: "sonar \<Rightarrow> sonar \<Rightarrow> bool" where
  "echo_sim s s' \<longleftrightarrow>
     gate s = gate s' \<and> mode s = mode s' \<and> capture s = capture s'
     \<and> it_update (tim s) = it_update (tim s') \<and> it_cc3 (tim s) = it_cc3 (tim s')
     \<and> (capture s = END \<longrightarrow> IC3Value1 s = IC3Value1 s')"

section \<open>Evaluation and frame lemmas\<close>

lemmas sonar_consts = TRIGGER_def ECHO_def BEGIN_def END_def

lemmas handler_defs = TIM3_IRQHandler_def xSemaphoreGiveFromISR_def interrupt_def sonar_consts

lemmas task_defs =
  sonar_cycle_def publish_def trigger_arm_def trigger_wait_def echo_arm_def echo_wait_def
  vSendTriggerPulse_def vSetEchoMode_def TIM_DeInit_def Let_def split_def

lemmas sonar_eval =
  vSonarInit_def vSemaphoreCreateBinary_def sonar_boot_def timer_reset_def vSonarTask_def
  task_defs handler_defs iSonarMeasureDistCm_def SONAR_BAD_VALUE_def

text \<open>
  The conversion in integers: the exact quotient \<open>2.5 v / 58\<close> is \<open>5 v / 116\<close>, and
  truncation towards zero is integer division of the absolute value.
\<close>

lemma ticks_to_cm_int:
  "ticks_to_cm v = (if 0 \<le> v then (5 * v) div 116 else - ((5 * (- v)) div 116))"
proof -
  have eq: "real_of_int v * 2.5 / real_of_int 58 = real_of_int (5 * v) / real_of_int 116"
    by simp
  have neg: "real_of_int (5 * v) / real_of_int 116 = - (real_of_int (5 * (- v)) / real_of_int 116)"
    by simp
  show ?thesis
  proof (cases "0 \<le> v")
    case True
    then have "0 \<le> real_of_int (5 * v) / real_of_int 116" by simp
    with True show ?thesis
      unfolding ticks_to_cm_def double_to_int_def TIM_ECHO_TC_US_def CONV_CONST_US_CM_def eq
      by (simp only: if_True floor_divide_of_int_eq)
  next
    case False
    then have "\<not> 0 \<le> real_of_int (5 * v) / real_of_int 116" by simp
    with False show ?thesis
      unfolding ticks_to_cm_def double_to_int_def TIM_ECHO_TC_US_def CONV_CONST_US_CM_def eq
      apply (simp only: if_False ceiling_def)
      apply (subst neg)
      apply (simp only: minus_minus floor_divide_of_int_eq)
      done
  qed
qed

lemma uint16_max: "uint (w :: 16 word) \<le> 65535"
  using uint_lt2p [of w] by simp

lemma uint16_max_iff: "uint (w :: 16 word) = 65535 \<longleftrightarrow> w = 0xFFFF"
proof
  assume "uint w = 65535"
  then have "uint w = uint (0xFFFF :: 16 word)" by simp
  then show "w = 0xFFFF" by (simp only: word_uint_eq_iff)
next
  assume "w = 0xFFFF"
  then show "uint w = 65535" by simp
qed

subsection \<open>What one interrupt can change\<close>

text \<open>An interrupt that leaves the semaphore unavailable has not written the width.\<close>

lemma interrupt_quiet_value:
  "\<not> gate (interrupt e s) \<Longrightarrow> value_ticks (interrupt e s) = value_ticks s"
  by (cases e) (auto simp: handler_defs Let_def split: if_splits)

text \<open>In trigger mode no interrupt writes the width, and the mode changes only together
  with the release of the semaphore.\<close>

lemma interrupt_trigger_value:
  "mode s = TRIGGER \<Longrightarrow> value_ticks (interrupt e s) = value_ticks s"
  by (cases e) (auto simp: handler_defs Let_def)

lemma interrupt_trigger_mode:
  "mode s = TRIGGER \<Longrightarrow> gate (interrupt e s) \<or> mode (interrupt e s) = TRIGGER"
  by (cases e) (auto simp: handler_defs Let_def)

text \<open>The handler never touches the reading, nor the time base and the pin of the timer.\<close>

lemma interrupt_frame:
  "value_cm (interrupt e s) = value_cm s
   \<and> enabled (tim (interrupt e s)) = enabled (tim s)
   \<and> prescaler (tim (interrupt e s)) = prescaler (tim s)
   \<and> period (tim (interrupt e s)) = period (tim s)
   \<and> pin (tim (interrupt e s)) = pin (tim s)"
  by (cases e) (simp_all add: handler_defs Let_def)

subsection \<open>What one wait can change\<close>

lemma take_gate: "gate s \<Longrightarrow> xSemaphoreTake s evs = (True, s\<lparr>gate := False\<rparr>)"
  by (cases evs) simp_all

lemma take_leaves_gate_held: "\<not> gate (snd (xSemaphoreTake s evs))"
  by (induction evs arbitrary: s) simp_all

lemma take_frame:
  "value_cm (snd (xSemaphoreTake s evs)) = value_cm s
   \<and> enabled (tim (snd (xSemaphoreTake s evs))) = enabled (tim s)
   \<and> prescaler (tim (snd (xSemaphoreTake s evs))) = prescaler (tim s)
   \<and> period (tim (snd (xSemaphoreTake s evs))) = period (tim s)
   \<and> pin (tim (snd (xSemaphoreTake s evs))) = pin (tim s)"
proof (induction evs arbitrary: s)
  case Nil
  show ?case by simp
next
  case (Cons e es)
  from Cons.IH [of "interrupt e s"] interrupt_frame [of e s] show ?case by simp
qed

lemma take_timeout_value:
  "\<not> fst (xSemaphoreTake s evs) \<Longrightarrow> value_ticks (snd (xSemaphoreTake s evs)) = value_ticks s"
proof (induction evs arbitrary: s)
  case Nil
  then show ?case by (simp split: if_splits)
next
  case (Cons e es)
  from Cons.prems have ng: "\<not> gate s" by (auto split: if_splits)
  with Cons.prems have t: "\<not> fst (xSemaphoreTake (interrupt e s) es)" by simp
  have "\<not> gate (interrupt e s)"
  proof
    assume "gate (interrupt e s)"
    then have "fst (xSemaphoreTake (interrupt e s) es)" by (simp add: take_gate)
    with t show False by simp
  qed
  then have "value_ticks (interrupt e s) = value_ticks s" by (rule interrupt_quiet_value)
  with Cons.IH [OF t] ng show ?case by simp
qed

lemma take_trigger_value:
  "gate s \<or> mode s = TRIGGER \<Longrightarrow> value_ticks (snd (xSemaphoreTake s evs)) = value_ticks s"
proof (induction evs arbitrary: s)
  case Nil
  then show ?case by simp
next
  case (Cons e es)
  show ?case
  proof (cases "gate s")
    case True
    then show ?thesis by simp
  next
    case False
    with Cons.prems have m: "mode s = TRIGGER" by simp
    from Cons.IH [OF interrupt_trigger_mode [OF m]] interrupt_trigger_value [OF m] False
    show ?thesis by simp
  qed
qed

subsection \<open>The phases of a cycle\<close>

lemma trigger_wait_value:
  "value_ticks (snd (trigger_wait (trigger_arm s) evs)) = value_ticks s"
proof -
  have "value_ticks (snd (xSemaphoreTake (trigger_arm s) evs)) = value_ticks (trigger_arm s)"
    by (rule take_trigger_value) (simp add: trigger_arm_def vSendTriggerPulse_def Let_def)
  then show ?thesis
    by (simp add: trigger_wait_def trigger_arm_def vSendTriggerPulse_def Let_def split_def)
qed

lemma trigger_wait_timeout_bad:
  "\<not> fst (trigger_wait s evs) \<Longrightarrow> value_cm (snd (trigger_wait s evs)) = SONAR_BAD_VALUE"
  by (simp add: trigger_wait_def Let_def split_def)

lemma echo_wait_timeout_bad:
  "\<not> fst (echo_wait s evs) \<Longrightarrow> value_cm (snd (echo_wait s evs)) = SONAR_BAD_VALUE"
  by (simp add: echo_wait_def Let_def split_def)

lemma echo_wait_timeout_value:
  assumes "\<not> fst (echo_wait s evs)"
  shows "value_ticks (snd (echo_wait s evs)) = value_ticks s"
proof -
  from assms have "\<not> fst (xSemaphoreTake s evs)"
    by (simp add: echo_wait_def Let_def split_def)
  then have "value_ticks (snd (xSemaphoreTake s evs)) = value_ticks s"
    by (rule take_timeout_value)
  then show ?thesis
    by (simp add: echo_wait_def Let_def split_def)
qed

lemma echo_arm_value: "value_ticks (echo_arm s) = value_ticks s"
  by (simp add: echo_arm_def vSetEchoMode_def Let_def)

lemma echo_wait_timer:
  "enabled (tim (snd (echo_wait s evs))) = enabled (tim s)
   \<and> prescaler (tim (snd (echo_wait s evs))) = prescaler (tim s)
   \<and> period (tim (snd (echo_wait s evs))) = period (tim s)
   \<and> pin (tim (snd (echo_wait s evs))) = pin (tim s)"
  using take_frame [of s evs] by (simp add: echo_wait_def Let_def split_def)

lemma cycle_unfold:
  "sonar_cycle s t e =
     publish (snd (echo_wait (echo_arm (snd (trigger_wait (trigger_arm s) t))) e))"
  by (simp add: sonar_cycle_def Let_def)

lemma cycle_leaves_gate_held: "\<not> gate (sonar_cycle s t e)"
  using take_leaves_gate_held [of "echo_arm (snd (trigger_wait (trigger_arm s) t))" e]
  by (simp add: cycle_unfold publish_def echo_wait_def Let_def split_def)

subsection \<open>Two runs side by side\<close>

lemma trig_sim_interrupt:
  "trig_sim s s' \<Longrightarrow> \<not> gate s \<Longrightarrow> trig_sim (interrupt e s) (interrupt e s')"
  by (cases e) (auto simp: trig_sim_def handler_defs Let_def)

lemma trig_sim_take:
  "trig_sim s s' \<Longrightarrow>
   fst (xSemaphoreTake s evs) = fst (xSemaphoreTake s' evs)
   \<and> gate (snd (xSemaphoreTake s evs)) = gate (snd (xSemaphoreTake s' evs))
   \<and> mode (snd (xSemaphoreTake s evs)) = mode (snd (xSemaphoreTake s' evs))"
proof (induction evs arbitrary: s s')
  case Nil
  then show ?case by (simp add: trig_sim_def)
next
  case (Cons e es)
  show ?case
  proof (cases "gate s")
    case True
    with Cons.prems show ?thesis by (simp add: trig_sim_def)
  next
    case False
    with Cons.prems have g': "\<not> gate s'" by (simp add: trig_sim_def)
    from Cons.IH [OF trig_sim_interrupt [OF Cons.prems False]] False g'
    show ?thesis by simp
  qed
qed

lemma echo_sim_interrupt:
  "echo_sim s s' \<Longrightarrow> echo_sim (interrupt e s) (interrupt e s')"
  by (cases e) (auto simp: echo_sim_def handler_defs Let_def)

text \<open>One interrupt either writes the same width in both runs or writes it in neither.\<close>

lemma echo_sim_interrupt_value:
  "echo_sim s s' \<Longrightarrow>
   value_ticks (interrupt e s) = value_ticks (interrupt e s')
   \<or> (value_ticks (interrupt e s) = value_ticks s \<and> value_ticks (interrupt e s') = value_ticks s')"
  by (cases e) (auto simp: echo_sim_def handler_defs Let_def)

lemma echo_sim_take:
  "echo_sim s s' \<Longrightarrow>
   fst (xSemaphoreTake s evs) = fst (xSemaphoreTake s' evs)
   \<and> (value_ticks (snd (xSemaphoreTake s evs)) = value_ticks (snd (xSemaphoreTake s' evs))
      \<or> (value_ticks (snd (xSemaphoreTake s evs)) = value_ticks s
          \<and> value_ticks (snd (xSemaphoreTake s' evs)) = value_ticks s'))"
proof (induction evs arbitrary: s s')
  case Nil
  then show ?case by (simp add: echo_sim_def)
next
  case (Cons e es)
  show ?case
  proof (cases "gate s")
    case True
    with Cons.prems show ?thesis by (simp add: echo_sim_def)
  next
    case False
    with Cons.prems have g': "\<not> gate s'" by (simp add: echo_sim_def)
    from Cons.IH [OF echo_sim_interrupt [OF Cons.prems], of e]
      echo_sim_interrupt_value [OF Cons.prems, of e] False g'
    show ?thesis by auto
  qed
qed

lemma trigger_runs_agree:
  assumes "gate s = gate s'"
  shows "gate (snd (trigger_wait (trigger_arm s) t)) = gate (snd (trigger_wait (trigger_arm s') t))
     \<and> mode (snd (trigger_wait (trigger_arm s) t)) = mode (snd (trigger_wait (trigger_arm s') t))"
proof -
  have "trig_sim (trigger_arm s) (trigger_arm s')"
    using assms
    by (simp add: trig_sim_def trigger_arm_def vSendTriggerPulse_def TIM_DeInit_def Let_def)
  from trig_sim_take [OF this, of t] show ?thesis
    by (simp add: trigger_wait_def Let_def split_def)
qed

lemma echo_runs_agree:
  assumes "gate s = gate s'" and "mode s = mode s'"
  shows "value_ticks (snd (echo_wait (echo_arm s) e)) = value_ticks (snd (echo_wait (echo_arm s') e))
     \<or> (value_ticks (snd (echo_wait (echo_arm s) e)) = value_ticks s
         \<and> value_ticks (snd (echo_wait (echo_arm s') e)) = value_ticks s')"
proof -
  have "echo_sim (echo_arm s) (echo_arm s')"
    using assms by (simp add: echo_sim_def echo_arm_def vSetEchoMode_def Let_def sonar_consts)
  from echo_sim_take [OF this, of e] show ?thesis
    by (simp add: echo_wait_def Let_def split_def echo_arm_value)
qed

lemma cycle_value: "value_ticks (sonar_cycle s t e)
    = value_ticks (snd (echo_wait (echo_arm (snd (trigger_wait (trigger_arm s) t))) e))"
  by (simp add: cycle_unfold publish_def)

text \<open>Two cycles that start with the semaphore in the same state and are fed the same
  interrupts either store the same width or both keep the width they started with.\<close>

lemma cycle_runs_agree:
  assumes "gate s = gate s'"
  shows "value_ticks (sonar_cycle s t e) = value_ticks (sonar_cycle s' t e)
     \<or> (value_ticks (sonar_cycle s t e) = value_ticks s
         \<and> value_ticks (sonar_cycle s' t e) = value_ticks s')"
proof -
  let ?s2 = "snd (trigger_wait (trigger_arm s) t)"
  let ?s2' = "snd (trigger_wait (trigger_arm s') t)"
  from trigger_runs_agree [OF assms, of t]
  have g: "gate ?s2 = gate ?s2'" and m: "mode ?s2 = mode ?s2'"
    by simp_all
  from echo_runs_agree [OF g m, of e] show ?thesis
    by (simp add: cycle_value trigger_wait_value)
qed

section \<open>The claims\<close>

subsection \<open>Pulse width\<close>

text \<open>
  Claim C2. In echo mode with the capture state at \<open>BEGIN\<close>, let the first capture
  interrupt latch \<open>firstEdge\<close> and the second latch \<open>secondEdge\<close>. When
  \<open>secondEdge > firstEdge\<close>, the width the handler stores on the second edge is
  \<open>secondEdge - firstEdge - 1\<close>.
\<close>

theorem pulse_width_no_wrap:
  assumes "mode s = ECHO" and "capture s = BEGIN" and "\<not> it_update (tim s)"
    and "uint secondEdge > uint firstEdge"
  shows "value_ticks (interrupt (CaptureEvent secondEdge) (interrupt (CaptureEvent firstEdge) s))
         = uint secondEdge - uint firstEdge - 1"
  using assms by (simp add: handler_defs Let_def)

theorem pulse_width_no_wrap_witness:
  "mode (echo_arm (sonar_boot\<lparr>mode := ECHO\<rparr>)) = ECHO
   \<and> capture (echo_arm (sonar_boot\<lparr>mode := ECHO\<rparr>)) = BEGIN
   \<and> \<not> it_update (tim (echo_arm (sonar_boot\<lparr>mode := ECHO\<rparr>)))
   \<and> uint (4740 :: 16 word) > uint (100 :: 16 word)
   \<and> value_ticks (interrupt (CaptureEvent 4740) (interrupt (CaptureEvent 100)
        (echo_arm (sonar_boot\<lparr>mode := ECHO\<rparr>)))) = 4639"
proof -
  let ?s = "echo_arm (sonar_boot\<lparr>mode := ECHO\<rparr>)"
  have m: "mode ?s = ECHO" and c: "capture ?s = BEGIN" and u: "\<not> it_update (tim ?s)"
    by (simp_all add: sonar_eval)
  have lt: "uint (4740 :: 16 word) > uint (100 :: 16 word)" by simp
  from pulse_width_no_wrap [OF m c u lt] m c u lt show ?thesis by simp
qed

text \<open>
  Claim C3. In the same situation, when \<open>secondEdge \<le> firstEdge\<close> (the counter wrapped
  during the pulse), the width the handler stores is
  \<open>(0xFFFF - firstEdge) + secondEdge - 1\<close>.
\<close>

theorem pulse_width_wrap:
  assumes "mode s = ECHO" and "capture s = BEGIN" and "\<not> it_update (tim s)"
    and "uint secondEdge \<le> uint firstEdge"
  shows "value_ticks (interrupt (CaptureEvent secondEdge) (interrupt (CaptureEvent firstEdge) s))
         = (0xFFFF - uint firstEdge) + uint secondEdge - 1"
  using assms by (simp add: handler_defs Let_def)

theorem pulse_width_wrap_witness:
  "mode (echo_arm (sonar_boot\<lparr>mode := ECHO\<rparr>)) = ECHO
   \<and> capture (echo_arm (sonar_boot\<lparr>mode := ECHO\<rparr>)) = BEGIN
   \<and> \<not> it_update (tim (echo_arm (sonar_boot\<lparr>mode := ECHO\<rparr>)))
   \<and> uint (500 :: 16 word) \<le> uint (65000 :: 16 word)
   \<and> value_ticks (interrupt (CaptureEvent 500) (interrupt (CaptureEvent 65000)
        (echo_arm (sonar_boot\<lparr>mode := ECHO\<rparr>)))) = 1034"
proof -
  let ?s = "echo_arm (sonar_boot\<lparr>mode := ECHO\<rparr>)"
  have m: "mode ?s = ECHO" and c: "capture ?s = BEGIN" and u: "\<not> it_update (tim ?s)"
    by (simp_all add: sonar_eval)
  have le: "uint (500 :: 16 word) \<le> uint (65000 :: 16 word)" by simp
  from pulse_width_wrap [OF m c u le] m c u le show ?thesis by simp
qed

text \<open>
  Claim C4, as stated: the width of the wraparound branch is never negative. It fails for
  \<open>firstEdge = 0xFFFF\<close>, \<open>secondEdge = 0\<close>, where the handler stores \<open>-1\<close>; the
  same edges fed to a whole cycle of the task leave \<open>-1\<close> in the stored width.
\<close>

theorem pulse_width_wrap_negative:
  "uint (0 :: 16 word) \<le> uint (0xFFFF :: 16 word)
   \<and> \<not> 0 \<le> value_ticks (interrupt (CaptureEvent 0) (interrupt (CaptureEvent 0xFFFF)
            (echo_arm (sonar_boot\<lparr>mode := ECHO\<rparr>))))
   \<and> value_ticks (vSonarTask (vSonarInit sonar_boot)
        [([UpdateEvent], [CaptureEvent 0xFFFF, CaptureEvent 0])]) = - 1"
  by (simp add: sonar_eval)

text \<open>
  Claim C4, amended. The width of the wraparound branch is at least \<open>-1\<close>, and it is
  negative for exactly one pair of edges, \<open>firstEdge = 0xFFFF\<close> and \<open>secondEdge = 0\<close>;
  for every other pair with \<open>secondEdge \<le> firstEdge\<close> it is at least \<open>0\<close>.
\<close>

theorem pulse_width_wrap_lower_bound:
  assumes "mode s = ECHO" and "capture s = BEGIN" and "\<not> it_update (tim s)"
    and "uint secondEdge \<le> uint firstEdge"
  shows "- 1 \<le> value_ticks (interrupt (CaptureEvent secondEdge) (interrupt (CaptureEvent firstEdge) s))
     \<and> (value_ticks (interrupt (CaptureEvent secondEdge) (interrupt (CaptureEvent firstEdge) s)) < 0
          \<longleftrightarrow> firstEdge = 0xFFFF \<and> secondEdge = 0)"
proof -
  have v: "value_ticks (interrupt (CaptureEvent secondEdge) (interrupt (CaptureEvent firstEdge) s))
         = (0xFFFF - uint firstEdge) + uint secondEdge - 1"
    using assms by (simp add: handler_defs Let_def)
  have b0: "0 \<le> uint secondEdge"
    by (rule uint_ge_0)
  have a: "uint firstEdge \<le> 65535"
    by (rule uint16_max)
  have lower: "- 1 \<le> (0xFFFF - uint firstEdge) + uint secondEdge - 1"
    using a b0 by linarith
  have "(0xFFFF - uint firstEdge) + uint secondEdge - 1 < 0
        \<longleftrightarrow> uint firstEdge = 65535 \<and> uint secondEdge = 0"
    using a b0 by linarith
  then have neg: "(0xFFFF - uint firstEdge) + uint secondEdge - 1 < 0
        \<longleftrightarrow> firstEdge = 0xFFFF \<and> secondEdge = 0"
    by (simp only: uint16_max_iff uint_0_iff)
  from lower neg show ?thesis
    unfolding v by (rule conjI)
qed

theorem pulse_width_wrap_lower_bound_witness:
  "mode (echo_arm (sonar_boot\<lparr>mode := ECHO\<rparr>)) = ECHO
   \<and> capture (echo_arm (sonar_boot\<lparr>mode := ECHO\<rparr>)) = BEGIN
   \<and> \<not> it_update (tim (echo_arm (sonar_boot\<lparr>mode := ECHO\<rparr>)))
   \<and> uint (7 :: 16 word) \<le> uint (7 :: 16 word)
   \<and> - 1 \<le> value_ticks (interrupt (CaptureEvent 7) (interrupt (CaptureEvent 7)
        (echo_arm (sonar_boot\<lparr>mode := ECHO\<rparr>))))
   \<and> \<not> value_ticks (interrupt (CaptureEvent 7) (interrupt (CaptureEvent 7)
        (echo_arm (sonar_boot\<lparr>mode := ECHO\<rparr>)))) < 0"
proof -
  let ?s = "echo_arm (sonar_boot\<lparr>mode := ECHO\<rparr>)"
  have m: "mode ?s = ECHO" and c: "capture ?s = BEGIN" and u: "\<not> it_update (tim ?s)"
    by (simp_all add: sonar_eval)
  have le: "uint (7 :: 16 word) \<le> uint (7 :: 16 word)" by simp
  from pulse_width_wrap_lower_bound [OF m c u le] m c u le show ?thesis by simp
qed

subsection \<open>The handler as a state machine\<close>

text \<open>
  Claim C7. When the update (pulse-complete) interrupt is pending and the mode is
  \<open>ECHO\<close>, the handler clears the pending flag and changes nothing else: the mode, the
  capture state, both edge timestamps, the width, the reading and the semaphore are as
  before.
\<close>

theorem update_in_echo_only_clears_flag:
  assumes "mode s = ECHO" and "it_update (tim s)"
  shows "TIM3_IRQHandler s = s\<lparr>tim := (tim s)\<lparr>it_update := False\<rparr>\<rparr>"
  using assms by (simp add: handler_defs)

theorem update_in_echo_only_clears_flag_witness:
  "mode (raise_irq UpdateEvent (echo_arm (sonar_boot\<lparr>mode := ECHO\<rparr>))) = ECHO
   \<and> it_update (tim (raise_irq UpdateEvent (echo_arm (sonar_boot\<lparr>mode := ECHO\<rparr>))))
   \<and> TIM3_IRQHandler (raise_irq UpdateEvent (echo_arm (sonar_boot\<lparr>mode := ECHO\<rparr>)))
       = (raise_irq UpdateEvent (echo_arm (sonar_boot\<lparr>mode := ECHO\<rparr>)))
           \<lparr>tim := (tim (raise_irq UpdateEvent (echo_arm (sonar_boot\<lparr>mode := ECHO\<rparr>))))
              \<lparr>it_update := False\<rparr>\<rparr>"
proof -
  let ?s = "raise_irq UpdateEvent (echo_arm (sonar_boot\<lparr>mode := ECHO\<rparr>))"
  have m: "mode ?s = ECHO"
    by (simp add: echo_arm_def vSetEchoMode_def Let_def)
  have u: "it_update (tim ?s)"
    by simp
  show ?thesis
    by (rule conjI [OF m conjI [OF u update_in_echo_only_clears_flag [OF m u]]])
qed

text \<open>
  Claim C8. Every run of the handler leaves the mode and the capture state as they were,
  or moves the mode from \<open>TRIGGER\<close> to \<open>ECHO\<close>, or moves the capture state from
  \<open>BEGIN\<close> to \<open>END\<close>; it never moves either of them back. The task is what resets them:
  whatever the state before, the mode is \<open>TRIGGER\<close> once the trigger is armed and the
  capture state is \<open>BEGIN\<close> once the capture is armed.
\<close>

theorem handler_only_advances:
  "((mode (TIM3_IRQHandler s) = mode s \<and> capture (TIM3_IRQHandler s) = capture s)
    \<or> (mode s = TRIGGER \<and> mode (TIM3_IRQHandler s) = ECHO
         \<and> capture (TIM3_IRQHandler s) = capture s)
    \<or> (capture s = BEGIN \<and> capture (TIM3_IRQHandler s) = END
         \<and> mode (TIM3_IRQHandler s) = mode s))
   \<and> mode (trigger_arm s) = TRIGGER
   \<and> capture (echo_arm s) = BEGIN"
proof -
  have task: "mode (trigger_arm s) = TRIGGER \<and> capture (echo_arm s) = BEGIN"
    by (simp add: trigger_arm_def echo_arm_def vSendTriggerPulse_def vSetEchoMode_def Let_def)
  show ?thesis
  proof (cases "it_update (tim s)")
    case True
    then show ?thesis using task by (simp add: handler_defs)
  next
    case False
    then show ?thesis using task by (simp add: handler_defs Let_def)
  qed
qed


subsection \<open>The reading a cycle publishes\<close>

text \<open>
  Claim C10. At the end of every iteration of the loop the reading is the stored width
  times \<open>2.5\<close> divided by \<open>58\<close>, truncated towards zero, whatever the outcome of
  the two waits. In integers that is \<open>5 w div 116\<close> for a width \<open>w \<ge> 0\<close> and
  \<open>- (5 (- w) div 116)\<close> for a negative one; for \<open>w \<ge> 0\<close> the reading \<open>r\<close> is the
  integer with \<open>r \<le> 2.5 w / 58 < r + 1\<close>. A timeout of the trigger wait or of the
  echo wait writes \<open>-1\<close>, and the conversion then overwrites it. When the echo wait
  times out the stored width is the one the iteration started with, so the reading is the
  conversion of that width; when it is still the initial \<open>0\<close> the reading is \<open>0\<close> and
  not \<open>-1\<close>.
\<close>

theorem cycle_publishes_conversion:
  "iSonarMeasureDistCm (sonar_cycle s t e)
     = (if 0 \<le> value_ticks (sonar_cycle s t e)
        then (5 * value_ticks (sonar_cycle s t e)) div 116
        else - ((5 * (- value_ticks (sonar_cycle s t e))) div 116))
   \<and> (0 \<le> value_ticks (sonar_cycle s t e) \<longrightarrow>
        real_of_int (iSonarMeasureDistCm (sonar_cycle s t e))
          \<le> real_of_int (value_ticks (sonar_cycle s t e)) * 2.5 / 58
        \<and> real_of_int (value_ticks (sonar_cycle s t e)) * 2.5 / 58
          < real_of_int (iSonarMeasureDistCm (sonar_cycle s t e)) + 1)
   \<and> (\<not> fst (trigger_wait (trigger_arm s) t) \<longrightarrow>
        iSonarMeasureDistCm (snd (trigger_wait (trigger_arm s) t)) = - 1)
   \<and> (\<not> fst (echo_wait (echo_arm (snd (trigger_wait (trigger_arm s) t))) e) \<longrightarrow>
        iSonarMeasureDistCm (snd (echo_wait (echo_arm (snd (trigger_wait (trigger_arm s) t))) e))
          = - 1
        \<and> value_ticks (sonar_cycle s t e) = value_ticks s
        \<and> iSonarMeasureDistCm (sonar_cycle s t e)
          = (if 0 \<le> value_ticks s then (5 * value_ticks s) div 116
             else - ((5 * (- value_ticks s)) div 116)))
   \<and> (\<not> fst (echo_wait (echo_arm (snd (trigger_wait (trigger_arm s) t))) e)
        \<and> value_ticks s = 0 \<longrightarrow>
        iSonarMeasureDistCm (sonar_cycle s t e) = 0
        \<and> iSonarMeasureDistCm (sonar_cycle s t e) \<noteq> - 1)"
proof -
  let ?s2 = "snd (trigger_wait (trigger_arm s) t)"
  let ?w = "value_ticks (sonar_cycle s t e)"
  let ?r = "iSonarMeasureDistCm (sonar_cycle s t e)"
  have r: "?r = ticks_to_cm ?w"
    by (simp add: iSonarMeasureDistCm_def cycle_unfold publish_def)
  have a: "?r = (if 0 \<le> ?w then (5 * ?w) div 116 else - ((5 * (- ?w)) div 116))"
    unfolding r by (rule ticks_to_cm_int)
  have bracket: "real_of_int ?r \<le> real_of_int ?w * 2.5 / 58
                 \<and> real_of_int ?w * 2.5 / 58 < real_of_int ?r + 1"
    if nonneg: "0 \<le> ?w"
  proof -
    from nonneg have "0 \<le> real_of_int ?w * 2.5 / 58"
      by simp
    then have fl: "?r = \<lfloor>real_of_int ?w * 2.5 / 58\<rfloor>"
      unfolding r
      by (simp add: ticks_to_cm_def double_to_int_def TIM_ECHO_TC_US_def CONV_CONST_US_CM_def)
    have "real_of_int \<lfloor>real_of_int ?w * 2.5 / 58\<rfloor> \<le> real_of_int ?w * 2.5 / 58
          \<and> real_of_int ?w * 2.5 / 58 < real_of_int \<lfloor>real_of_int ?w * 2.5 / 58\<rfloor> + 1"
      using floor_correct [of "real_of_int ?w * 2.5 / 58"] by simp
    then show ?thesis
      by (simp only: fl [symmetric])
  qed
  have b: "\<not> fst (trigger_wait (trigger_arm s) t) \<longrightarrow> iSonarMeasureDistCm ?s2 = - 1"
    by (simp add: iSonarMeasureDistCm_def trigger_wait_timeout_bad SONAR_BAD_VALUE_def)
  have c: "iSonarMeasureDistCm (snd (echo_wait (echo_arm ?s2) e)) = - 1
           \<and> ?w = value_ticks s
           \<and> ?r = (if 0 \<le> value_ticks s then (5 * value_ticks s) div 116
                   else - ((5 * (- value_ticks s)) div 116))"
    if timeout: "\<not> fst (echo_wait (echo_arm ?s2) e)"
  proof -
    have "value_ticks (snd (echo_wait (echo_arm ?s2) e)) = value_ticks (echo_arm ?s2)"
      using timeout by (rule echo_wait_timeout_value)
    also have "\<dots> = value_ticks ?s2"
      by (rule echo_arm_value)
    also have "\<dots> = value_ticks s"
      by (rule trigger_wait_value)
    finally have w: "?w = value_ticks s"
      by (simp add: cycle_unfold publish_def)
    have "iSonarMeasureDistCm (snd (echo_wait (echo_arm ?s2) e)) = - 1"
      using timeout by (simp add: iSonarMeasureDistCm_def echo_wait_timeout_bad SONAR_BAD_VALUE_def)
    with w a show ?thesis by simp
  qed
  have d: "?r = 0 \<and> ?r \<noteq> - 1"
    if "\<not> fst (echo_wait (echo_arm ?s2) e) \<and> value_ticks s = 0"
    using c that by simp
  from a bracket b c d show ?thesis by blast
qed

text \<open>
  Two instances: the first cycle after initialisation with both waits timing out (width
  \<open>0\<close>, reading \<open>0\<close>), and a cycle whose echo wait times out after a cycle that
  measured the edges \<open>100\<close> and \<open>4740\<close> (width \<open>4639\<close>, reading \<open>199\<close>).
\<close>

theorem cycle_publishes_conversion_witness:
  "\<not> fst (trigger_wait (trigger_arm (vSonarInit sonar_boot)) [])
   \<and> \<not> fst (echo_wait (echo_arm (snd (trigger_wait (trigger_arm (vSonarInit sonar_boot)) []))) [])
   \<and> value_ticks (vSonarInit sonar_boot) = 0
   \<and> iSonarMeasureDistCm (snd (trigger_wait (trigger_arm (vSonarInit sonar_boot)) [])) = - 1
   \<and> iSonarMeasureDistCm
        (snd (echo_wait (echo_arm (snd (trigger_wait (trigger_arm (vSonarInit sonar_boot)) []))) []))
       = - 1
   \<and> iSonarMeasureDistCm (sonar_cycle (vSonarInit sonar_boot) [] []) = 0
   \<and> \<not> fst (echo_wait (echo_arm (snd (trigger_wait (trigger_arm
          (sonar_cycle (vSonarInit sonar_boot) [UpdateEvent] [CaptureEvent 100, CaptureEvent 4740]))
          [UpdateEvent]))) [])
   \<and> value_ticks (sonar_cycle (vSonarInit sonar_boot) [UpdateEvent]
          [CaptureEvent 100, CaptureEvent 4740]) = 4639
   \<and> 0 \<le> value_ticks (sonar_cycle
          (sonar_cycle (vSonarInit sonar_boot) [UpdateEvent] [CaptureEvent 100, CaptureEvent 4740])
          [UpdateEvent] [])
   \<and> iSonarMeasureDistCm (sonar_cycle
          (sonar_cycle (vSonarInit sonar_boot) [UpdateEvent] [CaptureEvent 100, CaptureEvent 4740])
          [UpdateEvent] []) = 199"
proof -
  let ?s = "vSonarInit sonar_boot"
  let ?s1 = "sonar_cycle ?s [UpdateEvent] [CaptureEvent 100, CaptureEvent 4740]"
  have h1: "\<not> fst (trigger_wait (trigger_arm ?s) [])"
    by (simp add: sonar_eval)
  have h2: "\<not> fst (echo_wait (echo_arm (snd (trigger_wait (trigger_arm ?s) []))) [])"
    by (simp add: sonar_eval)
  have h3: "value_ticks ?s = 0"
    by (simp add: sonar_eval)
  have first: "iSonarMeasureDistCm (snd (trigger_wait (trigger_arm ?s) [])) = - 1
     \<and> iSonarMeasureDistCm (snd (echo_wait (echo_arm (snd (trigger_wait (trigger_arm ?s) []))) []))
         = - 1
     \<and> iSonarMeasureDistCm (sonar_cycle ?s [] []) = 0"
    using cycle_publishes_conversion [of ?s "[]" "[]"] h1 h2 h3 by blast
  have g1: "\<not> gate ?s1"
    by (rule cycle_leaves_gate_held)
  have h4: "\<not> fst (echo_wait (echo_arm (snd (trigger_wait (trigger_arm ?s1) [UpdateEvent]))) [])"
    using g1
    by (simp add: trigger_arm_def trigger_wait_def echo_arm_def echo_wait_def
          vSendTriggerPulse_def vSetEchoMode_def TIM_DeInit_def Let_def split_def handler_defs)
  have h5: "value_ticks ?s1 = 4639"
    by (simp add: sonar_eval)
  have w: "value_ticks (sonar_cycle ?s1 [UpdateEvent] []) = 4639"
    using cycle_publishes_conversion [of ?s1 "[UpdateEvent]" "[]"] h4 h5 by simp
  have h6: "0 \<le> value_ticks (sonar_cycle ?s1 [UpdateEvent] [])"
    by (simp add: w)
  have "iSonarMeasureDistCm (sonar_cycle ?s1 [UpdateEvent] [])
      = (if 0 \<le> value_ticks ?s1 then (5 * value_ticks ?s1) div 116
         else - ((5 * (- value_ticks ?s1)) div 116))"
    using cycle_publishes_conversion [of ?s1 "[UpdateEvent]" "[]"] h4 by blast
  then have second: "iSonarMeasureDistCm (sonar_cycle ?s1 [UpdateEvent] []) = 199"
    by (simp add: h5)
  from h1 h2 h3 first h4 h5 h6 second show ?thesis
    by blast
qed

text \<open>
  Claim C1, evaluated where it fails. The task starts, the trigger pulse ends with its
  interrupt, and no interrupt fires during the echo wait. The echo wait times out, and
  the reading the accessor returns after the cycle is \<open>0\<close>, the conversion of the stored
  width, and not \<open>SONAR_BAD_VALUE\<close>.
\<close>

theorem echo_timeout_reading_is_zero:
  "fst (trigger_wait (trigger_arm ((vSonarInit sonar_boot)\<lparr>value_cm := SONAR_BAD_VALUE\<rparr>))
        [UpdateEvent])
   \<and> \<not> fst (echo_wait (echo_arm (snd (trigger_wait
        (trigger_arm ((vSonarInit sonar_boot)\<lparr>value_cm := SONAR_BAD_VALUE\<rparr>)) [UpdateEvent]))) [])
   \<and> iSonarMeasureDistCm (vSonarTask (vSonarInit sonar_boot) [([UpdateEvent], [])]) = 0
   \<and> iSonarMeasureDistCm (vSonarTask (vSonarInit sonar_boot) [([UpdateEvent], [])])
       \<noteq> SONAR_BAD_VALUE"
  by (simp add: sonar_eval ticks_to_cm_int)

text \<open>
  Claim C5. From any state in which the semaphore is not available, a cycle whose trigger
  pulse ends with its interrupt and whose echo edges are captured at \<open>100\<close> and \<open>4740\<close>
  stores the width \<open>4639\<close> and publishes \<open>199\<close>, the truncation of
  \<open>4639 * 2.5 / 58\<close>.
\<close>

theorem cycle_100_4740:
  assumes "\<not> gate s"
  shows "value_ticks (sonar_cycle s [UpdateEvent] [CaptureEvent 100, CaptureEvent 4740]) = 4639
   \<and> iSonarMeasureDistCm (sonar_cycle s [UpdateEvent] [CaptureEvent 100, CaptureEvent 4740]) = 199"
proof -
  have w: "value_ticks (sonar_cycle s [UpdateEvent] [CaptureEvent 100, CaptureEvent 4740]) = 4639"
    using assms by (simp add: task_defs handler_defs)
  have "ticks_to_cm 4639 = 199"
    by (simp add: ticks_to_cm_int)
  with w show ?thesis
    by (simp add: iSonarMeasureDistCm_def cycle_unfold publish_def)
qed

theorem cycle_100_4740_witness:
  "\<not> gate (vSonarInit sonar_boot)
   \<and> value_ticks (sonar_cycle (vSonarInit sonar_boot) [UpdateEvent]
        [CaptureEvent 100, CaptureEvent 4740]) = 4639
   \<and> iSonarMeasureDistCm (sonar_cycle (vSonarInit sonar_boot) [UpdateEvent]
        [CaptureEvent 100, CaptureEvent 4740]) = 199"
proof -
  have h: "\<not> gate (vSonarInit sonar_boot)"
    by (simp add: vSonarInit_def vSemaphoreCreateBinary_def)
  show ?thesis
    by (rule conjI [OF h cycle_100_4740 [OF h]])
qed


text \<open>
  Claim C6, as stated: after a timeout of the trigger wait the reading published for the
  cycle is \<open>SONAR_BAD_VALUE\<close>. It fails when the pulse-complete interrupt arrives late,
  during the echo wait: the handler, still in trigger mode, releases the semaphore, the
  echo wait succeeds and the cycle publishes a distance, here \<open>0\<close>.
\<close>

theorem trigger_timeout_reading_not_bad:
  "\<not> fst (trigger_wait (trigger_arm ((vSonarInit sonar_boot)\<lparr>value_cm := SONAR_BAD_VALUE\<rparr>)) [])
   \<and> fst (echo_wait (echo_arm (snd (trigger_wait
        (trigger_arm ((vSonarInit sonar_boot)\<lparr>value_cm := SONAR_BAD_VALUE\<rparr>)) []))) [UpdateEvent])
   \<and> iSonarMeasureDistCm (vSonarTask (vSonarInit sonar_boot) [([], [UpdateEvent])]) = 0
   \<and> iSonarMeasureDistCm (vSonarTask (vSonarInit sonar_boot) [([], [UpdateEvent])])
       \<noteq> SONAR_BAD_VALUE"
  by (simp add: sonar_eval ticks_to_cm_int)

text \<open>
  Claim C6, amended. When the trigger wait times out, the task writes \<open>SONAR_BAD_VALUE\<close>
  to the reading at that point, and the cycle goes on: the capture state is reset to
  \<open>BEGIN\<close>, the timer is reconfigured for capture (echo prescaler and period, floating
  pin, rising-edge capture, counter running, no interrupt pending), the echo wait runs
  on that state and its outcome, after the conversion, is the state the cycle ends in,
  with the timer still in its capture configuration. The reading at the end of the cycle
  is not part of the amended claim.
\<close>

theorem trigger_timeout_cycle_proceeds:
  assumes "\<not> fst (trigger_wait (trigger_arm s) t)"
  shows "iSonarMeasureDistCm (snd (trigger_wait (trigger_arm s) t)) = SONAR_BAD_VALUE
   \<and> capture (echo_arm (snd (trigger_wait (trigger_arm s) t))) = BEGIN
   \<and> enabled (tim (echo_arm (snd (trigger_wait (trigger_arm s) t))))
   \<and> prescaler (tim (echo_arm (snd (trigger_wait (trigger_arm s) t)))) = TIM_ECHO_PSC
   \<and> period (tim (echo_arm (snd (trigger_wait (trigger_arm s) t)))) = TIM_ECHO_PERIOD
   \<and> pin (tim (echo_arm (snd (trigger_wait (trigger_arm s) t)))) = GPIO_Mode_IN_FLOATING
   \<and> channel (tim (echo_arm (snd (trigger_wait (trigger_arm s) t))))
       = CH3_Input TIM_ICPolarity_Rising
   \<and> \<not> it_update (tim (echo_arm (snd (trigger_wait (trigger_arm s) t))))
   \<and> \<not> it_cc3 (tim (echo_arm (snd (trigger_wait (trigger_arm s) t))))
   \<and> sonar_cycle s t e
       = publish (snd (echo_wait (echo_arm (snd (trigger_wait (trigger_arm s) t))) e))
   \<and> enabled (tim (sonar_cycle s t e))
   \<and> prescaler (tim (sonar_cycle s t e)) = TIM_ECHO_PSC
   \<and> period (tim (sonar_cycle s t e)) = TIM_ECHO_PERIOD
   \<and> pin (tim (sonar_cycle s t e)) = GPIO_Mode_IN_FLOATING"
proof -
  let ?s2 = "snd (trigger_wait (trigger_arm s) t)"
  have bad: "iSonarMeasureDistCm ?s2 = SONAR_BAD_VALUE"
    using assms by (simp add: iSonarMeasureDistCm_def trigger_wait_timeout_bad)
  have cap: "capture (echo_arm ?s2) = BEGIN"
    by (simp add: echo_arm_def vSetEchoMode_def Let_def)
  have armed: "enabled (tim (echo_arm ?s2)) \<and> prescaler (tim (echo_arm ?s2)) = TIM_ECHO_PSC
      \<and> period (tim (echo_arm ?s2)) = TIM_ECHO_PERIOD
      \<and> pin (tim (echo_arm ?s2)) = GPIO_Mode_IN_FLOATING"
    by (simp add: echo_arm_def vSetEchoMode_def Let_def)
  have chan: "channel (tim (echo_arm ?s2)) = CH3_Input TIM_ICPolarity_Rising
      \<and> \<not> it_update (tim (echo_arm ?s2)) \<and> \<not> it_cc3 (tim (echo_arm ?s2))"
    by (simp add: echo_arm_def vSetEchoMode_def Let_def)
  have final: "enabled (tim (sonar_cycle s t e))
      \<and> prescaler (tim (sonar_cycle s t e)) = TIM_ECHO_PSC
      \<and> period (tim (sonar_cycle s t e)) = TIM_ECHO_PERIOD
      \<and> pin (tim (sonar_cycle s t e)) = GPIO_Mode_IN_FLOATING"
    using armed echo_wait_timer [of "echo_arm ?s2" e]
    by (simp add: cycle_unfold publish_def)
  from bad cap armed chan final cycle_unfold [of s t e] show ?thesis
    by (simp only: simp_thms)
qed

theorem trigger_timeout_cycle_proceeds_witness:
  "\<not> fst (trigger_wait (trigger_arm (vSonarInit sonar_boot)) [CaptureEvent 9])
   \<and> iSonarMeasureDistCm (snd (trigger_wait (trigger_arm (vSonarInit sonar_boot)) [CaptureEvent 9]))
       = SONAR_BAD_VALUE
   \<and> capture (echo_arm (snd (trigger_wait (trigger_arm (vSonarInit sonar_boot)) [CaptureEvent 9])))
       = BEGIN
   \<and> prescaler (tim (sonar_cycle (vSonarInit sonar_boot) [CaptureEvent 9] [UpdateEvent]))
       = TIM_ECHO_PSC"
proof -
  have h: "\<not> fst (trigger_wait (trigger_arm (vSonarInit sonar_boot)) [CaptureEvent 9])"
    by (simp add: sonar_eval)
  from trigger_timeout_cycle_proceeds [OF h, of "[UpdateEvent]"] h show ?thesis
    by blast
qed

subsection \<open>Determinism\<close>

text \<open>
  Claim C9. The reading a cycle publishes is a function of the interrupts it is fed and
  of two components of the state it starts in, the semaphore and the stored width: two
  runs that agree on these (in particular two runs from the same state) and are fed the
  same interrupts, with the same edge timestamps, publish the same reading. The earlier
  reading, the earlier mode and capture state, the earlier edge timestamps and the
  configuration of the timer have no influence. Moreover, when the semaphore is not
  available at the start, as it is after initialisation and after every cycle, running
  the cycle a second time on the same interrupts publishes the same reading again.
\<close>

theorem cycle_reading_determined:
  "(gate s = gate s' \<and> value_ticks s = value_ticks s' \<longrightarrow>
      iSonarMeasureDistCm (sonar_cycle s t e) = iSonarMeasureDistCm (sonar_cycle s' t e))
   \<and> (\<not> gate s \<longrightarrow>
      iSonarMeasureDistCm (sonar_cycle (sonar_cycle s t e) t e)
        = iSonarMeasureDistCm (sonar_cycle s t e))"
proof -
  have width: "value_ticks (sonar_cycle s t e) = value_ticks (sonar_cycle s' t e)"
    if "gate s = gate s'" and "value_ticks s = value_ticks s'" for s s'
    using cycle_runs_agree [OF that(1), of t e] that(2) by auto
  have again: "value_ticks (sonar_cycle (sonar_cycle s t e) t e) = value_ticks (sonar_cycle s t e)"
    if "\<not> gate s"
  proof -
    have "gate (sonar_cycle s t e) = gate s"
      using that cycle_leaves_gate_held [of s t e] by simp
    from cycle_runs_agree [OF this, of t e] show ?thesis by auto
  qed
  have reading: "iSonarMeasureDistCm (sonar_cycle a t e) = ticks_to_cm (value_ticks (sonar_cycle a t e))"
    for a
    by (simp add: iSonarMeasureDistCm_def cycle_unfold publish_def)
  from width [of s s'] again show ?thesis
    by (simp add: reading)
qed

theorem cycle_reading_determined_witness:
  "gate (vSonarInit sonar_boot)
     = gate ((vSonarInit sonar_boot)\<lparr>mode := ECHO, capture := END, value_cm := 7, IC3Value1 := 5\<rparr>)
   \<and> value_ticks (vSonarInit sonar_boot)
     = value_ticks ((vSonarInit sonar_boot)\<lparr>mode := ECHO, capture := END, value_cm := 7, IC3Value1 := 5\<rparr>)
   \<and> \<not> gate (vSonarInit sonar_boot)
   \<and> iSonarMeasureDistCm (sonar_cycle (vSonarInit sonar_boot)
         [UpdateEvent] [CaptureEvent 65000, CaptureEvent 500])
     = iSonarMeasureDistCm (sonar_cycle
         ((vSonarInit sonar_boot)\<lparr>mode := ECHO, capture := END, value_cm := 7, IC3Value1 := 5\<rparr>)
         [UpdateEvent] [CaptureEvent 65000, CaptureEvent 500])
   \<and> iSonarMeasureDistCm (sonar_cycle (sonar_cycle (vSonarInit sonar_boot)
         [UpdateEvent] [CaptureEvent 65000, CaptureEvent 500])
         [UpdateEvent] [CaptureEvent 65000, CaptureEvent 500])
     = iSonarMeasureDistCm (sonar_cycle (vSonarInit sonar_boot)
         [UpdateEvent] [CaptureEvent 65000, CaptureEvent 500])"
proof -
  let ?s = "vSonarInit sonar_boot"
  let ?s' = "?s\<lparr>mode := ECHO, capture := END, value_cm := 7, IC3Value1 := 5\<rparr>"
  have g: "gate ?s = gate ?s'" and v: "value_ticks ?s = value_ticks ?s'"
    by simp_all
  have h: "\<not> gate ?s"
    by (simp add: vSonarInit_def vSemaphoreCreateBinary_def)
  from cycle_reading_determined
    [of ?s ?s' "[UpdateEvent]" "[CaptureEvent 65000, CaptureEvent 500]"] g v h
  show ?thesis by blast
qed

text \<open>
  The wraparound scenario of the specification, as a whole cycle: edges at \<open>65000\<close>
  and \<open>500\<close> give the width \<open>1034\<close> and the reading \<open>44\<close>.
\<close>

lemma cycle_65000_500:
  assumes "\<not> gate s"
  shows "value_ticks (sonar_cycle s [UpdateEvent] [CaptureEvent 65000, CaptureEvent 500]) = 1034
   \<and> iSonarMeasureDistCm (sonar_cycle s [UpdateEvent] [CaptureEvent 65000, CaptureEvent 500]) = 44"
proof -
  have w: "value_ticks (sonar_cycle s [UpdateEvent] [CaptureEvent 65000, CaptureEvent 500]) = 1034"
    using assms by (simp add: task_defs handler_defs)
  have "ticks_to_cm 1034 = 44"
    by (simp add: ticks_to_cm_int)
  with w show ?thesis
    by (simp add: iSonarMeasureDistCm_def cycle_unfold publish_def)
qed

end
